theory Spec2Isabelle
  imports Main "HOL-Library.AList"
begin

section \<open>Values, errors and the Python operations the client relies on\<close>

text \<open>
  The client of \<^verbatim>\<open>api.py\<close> passes decoded JSON around without looking into it, so the
  values of the model are the values \<^verbatim>\<open>json.loads\<close> produces: \<open>JNull\<close> is Python's
  \<^verbatim>\<open>None\<close>, \<open>JObj\<close> is a \<^verbatim>\<open>dict\<close> in insertion order. Numbers are integers: the client
  does no arithmetic on attribute values. Strings are ASCII.
\<close>

datatype json =
    JNull
  | JBool bool
  | JInt int
  | JStr string
  | JList "json list"
  | JObj "(string \<times> json) list"

text \<open>The exceptions of the source that are not \<^verbatim>\<open>requests.RequestException\<close>.\<close>

datatype error = KeyError | TypeError | ValueError | AttributeError

text \<open>Truth value of a Python object, as \<^verbatim>\<open>if not x\<close> tests it.\<close>

fun truthy :: "json \<Rightarrow> bool" where
  "truthy JNull = False"
| "truthy (JBool b) = b"
| "truthy (JInt n) = (n \<noteq> 0)"
| "truthy (JStr s) = (s \<noteq> [])"
| "truthy (JList xs) = (xs \<noteq> [])"
| "truthy (JObj kvs) = (kvs \<noteq> [])"

text \<open>\<^verbatim>\<open>x.get(key)\<close> and \<^verbatim>\<open>x.get(key, default)\<close>: only a dict has the method.\<close>

fun py_get :: "json \<Rightarrow> string \<Rightarrow> json \<Rightarrow> error + json" where
  "py_get (JObj kvs) key dflt = Inr (case map_of kvs key of None \<Rightarrow> dflt | Some v \<Rightarrow> v)"
| "py_get _ key dflt = Inl AttributeError"

text \<open>\<^verbatim>\<open>s in t\<close> for strings: \<open>s\<close> occurs in \<open>t\<close> as a contiguous slice.\<close>

fun is_prefix :: "string \<Rightarrow> string \<Rightarrow> bool" where
  "is_prefix [] t = True"
| "is_prefix (c # s) [] = False"
| "is_prefix (c # s) (d # t) = (c = d \<and> is_prefix s t)"

fun is_substring :: "string \<Rightarrow> string \<Rightarrow> bool" where
  "is_substring s [] = (s = [])"
| "is_substring s (d # t) = (is_prefix s (d # t) \<or> is_substring s t)"

text \<open>\<^verbatim>\<open>key in x\<close> for a string key.\<close>

fun py_contains :: "string \<Rightarrow> json \<Rightarrow> error + bool" where
  "py_contains key (JObj kvs) = Inr (key \<in> set (map fst kvs))"
| "py_contains key (JList xs) = Inr (JStr key \<in> set xs)"
| "py_contains key (JStr s) = Inr (is_substring key s)"
| "py_contains key _ = Inl TypeError"

text \<open>\<^verbatim>\<open>x[key]\<close> for a string key: a list or a string takes integer indices only.\<close>

fun py_getitem :: "json \<Rightarrow> string \<Rightarrow> error + json" where
  "py_getitem (JObj kvs) key = (case map_of kvs key of None \<Rightarrow> Inl KeyError | Some v \<Rightarrow> Inr v)"
| "py_getitem _ key = Inl TypeError"

text \<open>How an f-string renders the two kinds of value the client interpolates into a URL:
  a string, or \<^verbatim>\<open>None\<close>.\<close>

definition fmt_opt :: "string option \<Rightarrow> string" where
  "fmt_opt u = (case u of None \<Rightarrow> ''None'' | Some s \<Rightarrow> s)"

section \<open>The environment: credential file and HTTP transport\<close>

datatype http_method = GET | POST | PUT

text \<open>
  A request as the client hands it to \<^verbatim>\<open>requests\<close>: the URL, the query parameters (only the
  token exchange has some), the token of the \<^verbatim>\<open>Authorization: Bearer\<close> header (only the
  authorised calls have one) and the JSON payload. The constant \<^verbatim>\<open>Content-Type\<close> header is
  left out.
\<close>

record request =
  meth :: http_method
  url :: string
  params :: "(string \<times> json) list option"
  bearer :: "json option"
  payload :: "json option"

text \<open>
  What the transport gives back: a response with its status code and its body, decoded
  (\<open>None\<close> when the body is not JSON, where \<^verbatim>\<open>response.json()\<close> raises the
  \<^verbatim>\<open>JSONDecodeError\<close> of \<^verbatim>\<open>requests\<close>, a \<^verbatim>\<open>RequestException\<close>), or a
  \<^verbatim>\<open>RequestException\<close> of the transport itself.
\<close>

datatype http_result = Response int "json option" | RequestException

text \<open>What the client does to the outside world, in order.\<close>

datatype event = ReadCredentials | Http request http_result

section \<open>The device mirror's data\<close>

text \<open>
  \<^verbatim>\<open>Device._System\<close> and \<^verbatim>\<open>Device._Zone\<close> are plain objects whose \<^verbatim>\<open>__dict__\<close> the code
  iterates; they are association lists from attribute name to value, in the order
  \<^verbatim>\<open>__init__\<close> assigns them. The two ChangeSets are dicts.
\<close>

type_synonym attrs = "(string \<times> json) list"

record device =
  AUTOSET :: bool
  system :: attrs
  zone :: attrs
  system_changed :: attrs
  zone_changed :: attrs

section \<open>The client object and its environment\<close>

text \<open>
  The fields of \<^verbatim>\<open>API\<close>, followed by the environment the object runs against: the decoded
  content of the credentials file (\<open>None\<close> when the file is missing or is not JSON; its
  values are strings), the responses the transport will deliver, in order, and the trace of
  what the client did. Once the scripted responses are used up, every further request fails
  in the transport.
\<close>

record api =
  AUTO_RECONNECT :: bool
  session_token :: json
  api_token :: json
  auth_url :: "string option"
  api_url :: "string option"
  devices :: "device list"
  cred_file :: "(string \<times> string) list option"
  pending :: "http_result list"
  trace :: "event list"

definition http :: "request \<Rightarrow> api \<Rightarrow> http_result \<times> api" where
  "http rq s =
     (case pending s of
        [] \<Rightarrow> (RequestException, s\<lparr>trace := trace s @ [Http rq RequestException]\<rparr>)
      | r # rs \<Rightarrow> (r, s\<lparr>pending := rs, trace := trace s @ [Http rq r]\<rparr>))"

section \<open>Session Authenticator\<close>

definition required_keys :: "string list" where
  "required_keys = [''auth_url'', ''api_url'', ''username'', ''password'']"

text \<open>\<^verbatim>\<open>API._load_credentials\<close>: the empty dict when the file cannot be loaded or a key is
  missing.\<close>

definition load_credentials :: "api \<Rightarrow> (string \<times> string) list \<times> api" where
  "load_credentials s =
     (let s0 = s\<lparr>trace := trace s @ [ReadCredentials]\<rparr> in
      case cred_file s of
        None \<Rightarrow> ([], s0)
      | Some credentials \<Rightarrow>
          if list_ex (\<lambda>key. map_of credentials key = None) required_keys then ([], s0)
          else (credentials,
                s0\<lparr>auth_url := map_of credentials ''auth_url'',
                   api_url := map_of credentials ''api_url''\<rparr>))"

definition auth_request :: "string option \<Rightarrow> string \<Rightarrow> string \<Rightarrow> request" where
  "auth_request u username password =
     \<lparr>meth = POST, url = fmt_opt u, params = None, bearer = None,
      payload = Some (JObj [(''username'', JStr username), (''password'', JStr password)])\<rparr>"

text \<open>\<^verbatim>\<open>API._get_session_token\<close>. The two dictionary reads of the credentials come before
  the \<^verbatim>\<open>try\<close>.\<close>

definition get_session_token :: "api \<Rightarrow> (error + json) \<times> api" where
  "get_session_token s =
     (case load_credentials s of (credentials, s1) \<Rightarrow>
        (case map_of credentials ''username'' of
           None \<Rightarrow> (Inl KeyError, s1)
         | Some username \<Rightarrow>
        (case map_of credentials ''password'' of
           None \<Rightarrow> (Inl KeyError, s1)
         | Some password \<Rightarrow>
        (case http (auth_request (auth_url s1) username password) s1 of
           (RequestException, s2) \<Rightarrow> (Inr JNull, s2)
         | (Response status body, s2) \<Rightarrow>
             if status = 200 then
               (case body of
                  None \<Rightarrow> (Inr JNull, s2)
                | Some response_data \<Rightarrow>
                    (case py_get response_data ''status'' JNull of
                       Inl e \<Rightarrow> (Inl e, s2)
                     | Inr st \<Rightarrow>
                         if st = JStr ''SUCCESS'' then
                           (case py_getitem response_data ''sessionToken'' of
                              Inl e \<Rightarrow> (Inl e, s2)
                            | Inr tok \<Rightarrow> (Inr tok, s2\<lparr>session_token := tok\<rparr>))
                         else (Inr JNull, s2)))
             else (Inr JNull, s2)))))"

definition token_request :: "string \<Rightarrow> json \<Rightarrow> request" where
  "token_request u tok =
     \<lparr>meth = GET, url = u @ ''iam/token/'',
      params = Some [(''issuer'', JStr ''GETAIR_API''), (''sessionToken'', tok)],
      bearer = None, payload = None\<rparr>"

text \<open>\<^verbatim>\<open>API._get_api_token\<close>. It stores the API token and returns the session token.
  \<^verbatim>\<open>self._api_url + "iam/token/"\<close> is a \<^verbatim>\<open>TypeError\<close> while the URL is \<^verbatim>\<open>None\<close>.\<close>

definition get_api_token :: "api \<Rightarrow> (error + json) \<times> api" where
  "get_api_token s =
     (case api_url s of
        None \<Rightarrow> (Inl TypeError, s)
      | Some u \<Rightarrow>
        (case http (token_request u (session_token s)) s of
           (RequestException, s1) \<Rightarrow> (Inr JNull, s1)
         | (Response status body, s1) \<Rightarrow>
             if status = 200 then
               (case body of
                  None \<Rightarrow> (Inr JNull, s1)
                | Some response_data \<Rightarrow>
                    (case py_get response_data ''token'' JNull of
                       Inl e \<Rightarrow> (Inl e, s1)
                     | Inr t \<Rightarrow>
                         if truthy t then (Inr (session_token s1), s1\<lparr>api_token := t\<rparr>)
                         else (Inr JNull, s1)))
             else (Inr JNull, s1)))"

text \<open>\<^verbatim>\<open>API.connect\<close>, called on an object: \<open>True\<close> stands for the returned object,
  \<open>False\<close> for \<^verbatim>\<open>None\<close>. \<^verbatim>\<open>or\<close> does not evaluate its second operand when the first
  decides.\<close>

definition connect :: "api \<Rightarrow> (error + bool) \<times> api" where
  "connect s =
     (case get_session_token s of
        (Inl e, s1) \<Rightarrow> (Inl e, s1)
      | (Inr tok, s1) \<Rightarrow>
          if \<not> truthy tok then (Inr False, s1)
          else (case get_api_token s1 of
                  (Inl e, s2) \<Rightarrow> (Inl e, s2)
                | (Inr tok', s2) \<Rightarrow>
                    if \<not> truthy tok' then (Inr False, s2) else (Inr True, s2)))"

section \<open>Resilient Request Executor\<close>

text \<open>
  \<^verbatim>\<open>_request_get\<close> and \<^verbatim>\<open>_request_put\<close> call themselves after a successful reconnect.
  Every request that is answered takes one scripted response, so the recursion ends.
\<close>

lemma http_pending_le: "http rq s = (r, s1) \<Longrightarrow> length (pending s1) \<le> length (pending s)"
  by (auto simp: http_def split: list.splits)

lemma http_response_pending:
  "http rq s = (Response st b, s1) \<Longrightarrow> length (pending s1) < length (pending s)"
  by (auto simp: http_def split: list.splits)

lemma load_credentials_pending: "load_credentials s = (c, s1) \<Longrightarrow> pending s1 = pending s"
  by (auto simp: load_credentials_def Let_def split: option.splits if_splits)

lemma get_session_token_pending:
  "get_session_token s = (r, s1) \<Longrightarrow> length (pending s1) \<le> length (pending s)"
  by (auto simp: get_session_token_def
      split: prod.splits option.splits http_result.splits if_splits sum.splits
      dest!: load_credentials_pending http_pending_le)

lemma get_api_token_pending:
  "get_api_token s = (r, s1) \<Longrightarrow> length (pending s1) \<le> length (pending s)"
  by (auto simp: get_api_token_def
      split: prod.splits option.splits http_result.splits if_splits sum.splits
      dest!: http_pending_le)

lemma connect_pending:
  "connect s = (r, s1) \<Longrightarrow> length (pending s1) \<le> length (pending s)"
  by (fastforce simp: connect_def split: prod.splits if_splits sum.splits
      dest!: get_session_token_pending get_api_token_pending)

definition get_request :: "string option \<Rightarrow> string \<Rightarrow> json \<Rightarrow> request" where
  "get_request u path tok =
     \<lparr>meth = GET, url = fmt_opt u @ path, params = None, bearer = Some tok, payload = None\<rparr>"

definition put_request :: "string option \<Rightarrow> string \<Rightarrow> json \<Rightarrow> json \<Rightarrow> request" where
  "put_request u path tok body =
     \<lparr>meth = PUT, url = fmt_opt u @ path, params = None, bearer = Some tok,
      payload = Some body\<rparr>"

text \<open>\<^verbatim>\<open>API._request_get\<close>: the decoded body, or \<^verbatim>\<open>None\<close>.\<close>

function request_get :: "string \<Rightarrow> api \<Rightarrow> (error + json) \<times> api" where
  "request_get path s =
     (case http (get_request (api_url s) path (api_token s)) s of
        (RequestException, s1) \<Rightarrow> (Inr JNull, s1)
      | (Response status body, s1) \<Rightarrow>
          if status = 200 then
            (case body of None \<Rightarrow> (Inr JNull, s1) | Some j \<Rightarrow> (Inr j, s1))
          else if status = 401 \<and> AUTO_RECONNECT s1 then
            (case connect s1 of
               (Inl e, s2) \<Rightarrow> (Inl e, s2)
             | (Inr ok, s2) \<Rightarrow> if ok then request_get path s2 else (Inr JNull, s2))
          else (Inr JNull, s1))"
  by pat_completeness auto
termination
  apply (relation "measure (\<lambda>(path, s). length (pending s))")
   apply simp
  apply (auto dest!: http_response_pending [OF sym] connect_pending [OF sym])
  done

text \<open>\<^verbatim>\<open>API._request_put\<close>: as above, and 204 gives \<^verbatim>\<open>None\<close>.\<close>

function request_put :: "string \<Rightarrow> json \<Rightarrow> api \<Rightarrow> (error + json) \<times> api" where
  "request_put path body s =
     (case http (put_request (api_url s) path (api_token s) body) s of
        (RequestException, s1) \<Rightarrow> (Inr JNull, s1)
      | (Response status rbody, s1) \<Rightarrow>
          if status = 200 then
            (case rbody of None \<Rightarrow> (Inr JNull, s1) | Some j \<Rightarrow> (Inr j, s1))
          else if status = 204 then (Inr JNull, s1)
          else if status = 401 \<and> AUTO_RECONNECT s1 then
            (case connect s1 of
               (Inl e, s2) \<Rightarrow> (Inl e, s2)
             | (Inr ok, s2) \<Rightarrow> if ok then request_put path body s2 else (Inr JNull, s2))
          else (Inr JNull, s1))"
  by pat_completeness auto
termination
  apply (relation "measure (\<lambda>(path, body, s). length (pending s))")
   apply simp
  apply (auto dest!: http_response_pending [OF sym] connect_pending [OF sym])
  done

declare request_get.simps [simp del] request_put.simps [simp del]

section \<open>Strings and device identifiers\<close>

text \<open>\<^verbatim>\<open>str.upper\<close> and the two \<^verbatim>\<open>str.replace\<close> calls of the source, on ASCII.\<close>

definition upper_char :: "char \<Rightarrow> char" where
  "upper_char c =
     (let n = (of_char c :: nat) in if 97 \<le> n \<and> n \<le> 122 then char_of (n - 32) else c)"

definition py_upper :: "string \<Rightarrow> string" where
  "py_upper s = map upper_char s"

definition strip_colons :: "string \<Rightarrow> string" where
  "strip_colons s = filter (\<lambda>c. c \<noteq> CHR '':'') s"

definition to_wire :: "string \<Rightarrow> string" where
  "to_wire attr = map (\<lambda>c. if c = CHR ''_'' then CHR ''-'' else c) attr"

text \<open>Decimal and hexadecimal digits of a natural number.\<close>

fun dec :: "nat \<Rightarrow> string" where
  "dec n = (if n < 10 then [char_of (48 + n)] else dec (n div 10) @ [char_of (48 + n mod 10)])"

definition hex_digit :: "nat \<Rightarrow> char" where
  "hex_digit n = (if n < 10 then char_of (48 + n) else char_of (87 + n))"

fun hex :: "nat \<Rightarrow> string" where
  "hex n = (if n < 16 then [hex_digit n] else hex (n div 16) @ [hex_digit (n mod 16)])"

declare dec.simps [simp del] hex.simps [simp del]

text \<open>\<^verbatim>\<open>f'{b:02x}'\<close> for an integer: at least two characters, the sign included.\<close>

definition fmt_02x :: "int \<Rightarrow> string" where
  "fmt_02x b =
     (if b < 0 then CHR ''-'' # hex (nat (- b))
      else if b < 16 then CHR ''0'' # hex (nat b) else hex (nat b))"

text \<open>The same for any element of the buffer: a bool formats as the integer it is, a
  string has no format code \<^verbatim>\<open>x\<close>, the other types take no format string.\<close>

fun fmt_02x_value :: "json \<Rightarrow> error + string" where
  "fmt_02x_value (JInt b) = Inr (fmt_02x b)"
| "fmt_02x_value (JBool b) = Inr (fmt_02x (if b then 1 else 0))"
| "fmt_02x_value (JStr s) = Inl ValueError"
| "fmt_02x_value _ = Inl TypeError"

text \<open>What \<^verbatim>\<open>for x in v\<close> ranges over.\<close>

fun py_iter :: "json \<Rightarrow> error + json list" where
  "py_iter (JList xs) = Inr xs"
| "py_iter (JStr s) = Inr (map (\<lambda>c. JStr [c]) s)"
| "py_iter (JObj kvs) = Inr (map (\<lambda>kv. JStr (fst kv)) kvs)"
| "py_iter _ = Inl TypeError"

text \<open>The results of a comprehension, up to the first element that raises.\<close>

fun collect :: "(error + 'a) list \<Rightarrow> error + 'a list" where
  "collect [] = Inr []"
| "collect (Inl e # rs) = Inl e"
| "collect (Inr x # rs) = (case collect rs of Inl e \<Rightarrow> Inl e | Inr xs \<Rightarrow> Inr (x # xs))"

text \<open>
  \<^verbatim>\<open>int(t, 16)\<close> for a slice \<open>t\<close> of at most two characters: surrounding white space and
  a sign are accepted, then every character must be a hexadecimal digit. (A \<^verbatim>\<open>0x\<close> prefix or
  an underscore between digits needs three characters.)
\<close>

definition py_isspace :: "char \<Rightarrow> bool" where
  "py_isspace c = ((of_char c :: nat) \<in> {9, 10, 11, 12, 13, 28, 29, 30, 31, 32, 133, 160})"

definition hex_value :: "char \<Rightarrow> nat option" where
  "hex_value c =
     (let n = (of_char c :: nat) in
      if 48 \<le> n \<and> n \<le> 57 then Some (n - 48)
      else if 97 \<le> n \<and> n \<le> 102 then Some (n - 87)
      else if 65 \<le> n \<and> n \<le> 70 then Some (n - 55)
      else None)"

fun hex_number :: "nat \<Rightarrow> string \<Rightarrow> nat option" where
  "hex_number acc [] = Some acc"
| "hex_number acc (c # cs) =
     (case hex_value c of None \<Rightarrow> None | Some v \<Rightarrow> hex_number (16 * acc + v) cs)"

definition py_strip :: "string \<Rightarrow> string" where
  "py_strip s = dropWhile py_isspace (rev (dropWhile py_isspace (rev s)))"

definition int16 :: "string \<Rightarrow> error + int" where
  "int16 t =
     (let u = py_strip t;
          neg = (u \<noteq> [] \<and> hd u = CHR ''-'');
          ds = (if u \<noteq> [] \<and> (hd u = CHR ''-'' \<or> hd u = CHR ''+'') then tl u else u)
      in if ds = [] then Inl ValueError
         else (case hex_number 0 ds of
                 None \<Rightarrow> Inl ValueError
               | Some v \<Rightarrow> Inr (if neg then - int v else int v)))"

text \<open>\<^verbatim>\<open>[s[i:i+2] for i in range(0, len(s), 2)]\<close>\<close>

fun slices2 :: "'a list \<Rightarrow> 'a list list" where
  "slices2 [] = []"
| "slices2 [a] = [[a]]"
| "slices2 (a # b # r) = [a, b] # slices2 r"

section \<open>Device State Mirror\<close>

definition time_profile_attr :: "nat \<Rightarrow> string \<Rightarrow> string" where
  "time_profile_attr i what = ''time_profile_'' @ dec i @ ''_'' @ what"

text \<open>\<^verbatim>\<open>Device._System.__init__\<close> and \<^verbatim>\<open>Device._Zone.__init__\<close>: every attribute
  \<^verbatim>\<open>None\<close>.\<close>

definition System_init :: attrs where
  "System_init =
     map (\<lambda>a. (a, JNull))
       ([''system_type'', ''system_version'', ''system_id'', ''num_zones'', ''runtime'',
         ''modelock'', ''notification'', ''notify_time'', ''humidity'', ''air_pressure'',
         ''temperature'', ''indoor_air_quality'', ''iaq_accuracy'', ''fw_app_version'',
         ''fw_app_version_str'', ''boot_time'']
        @ concat (map (\<lambda>i. [time_profile_attr i ''name'', time_profile_attr i ''data''])
                    [1..<11]))"

definition Zone_init :: attrs where
  "Zone_init =
     map (\<lambda>a. (a, JNull))
       [''name'', ''runtime'', ''last_filter_change'', ''speed'', ''zone_index'', ''mode'',
        ''mode_deadline'', ''target_temp'', ''target_hmdty_level'', ''auto_mode_voc'',
        ''auto_mode_silent'', ''humidity'', ''temperature'', ''hmdty_outdoors'',
        ''temp_outdoors'', ''time_profile'']"

text \<open>A tagged byte-buffer.\<close>

definition Buffer :: "json list \<Rightarrow> json" where
  "Buffer bs = JObj [(''type'', JStr ''Buffer''), (''data'', JList bs)]"

text \<open>The property \<^verbatim>\<open>Device.device_id\<close>: a string is returned as it is, a dict with
  \<^verbatim>\<open>data\<close> is rendered in upper-case hexadecimal, anything else gives \<^verbatim>\<open>None\<close>.\<close>

definition device_id :: "device \<Rightarrow> error + json" where
  "device_id d =
     (case map_of (system d) ''system_id'' of
        None \<Rightarrow> Inl AttributeError
      | Some (JStr s) \<Rightarrow> Inr (JStr s)
      | Some (JObj kvs) \<Rightarrow>
          (case map_of kvs ''data'' of
             None \<Rightarrow> Inr JNull
           | Some data \<Rightarrow>
               (case py_iter data of
                  Inl e \<Rightarrow> Inl e
                | Inr bs \<Rightarrow>
                    (case collect (map fmt_02x_value bs) of
                       Inl e \<Rightarrow> Inl e
                     | Inr parts \<Rightarrow> Inr (JStr (py_upper (concat parts))))))
      | Some _ \<Rightarrow> Inr JNull)"

text \<open>How an f-string renders what \<^verbatim>\<open>device_id\<close> returns.\<close>

fun fmt_id :: "json \<Rightarrow> string" where
  "fmt_id (JStr s) = s"
| "fmt_id _ = ''None''"

text \<open>
  One of the two loops of \<^verbatim>\<open>fetch\<close>: for every attribute of the group, in order, the
  response's value under the dash-cased key replaces the attribute when the key is present.
  An exception ends the loop with \<open>False\<close>; what was assigned before stays.
\<close>

fun merge :: "json \<Rightarrow> attrs \<Rightarrow> bool \<times> attrs" where
  "merge data [] = (True, [])"
| "merge data ((attr, old) # rest) =
     (case py_contains (to_wire attr) data of
        Inl e \<Rightarrow> (False, (attr, old) # rest)
      | Inr False \<Rightarrow> (case merge data rest of (ok, rest') \<Rightarrow> (ok, (attr, old) # rest'))
      | Inr True \<Rightarrow>
          (case py_getitem data (to_wire attr) of
             Inl e \<Rightarrow> (False, (attr, old) # rest)
           | Inr v \<Rightarrow> (case merge data rest of (ok, rest') \<Rightarrow> (ok, (attr, v) # rest'))))"

text \<open>\<^verbatim>\<open>Device.fetch\<close>. The outer \<^verbatim>\<open>except Exception\<close> turns every exception into
  \<open>False\<close>.\<close>

definition fetch :: "device \<Rightarrow> api \<Rightarrow> bool \<times> device \<times> api" where
  "fetch d s =
     (case device_id d of
        Inl e \<Rightarrow> (False, d, s)
      | Inr i \<Rightarrow>
        (case request_get (''devices/'' @ fmt_id i @ ''/services/System'') s of
           (Inl e, s1) \<Rightarrow> (False, d, s1)
         | (Inr system_data, s1) \<Rightarrow>
             if \<not> truthy system_data then (False, d, s1)
             else
               (case merge system_data (system d) of
                  (False, sys') \<Rightarrow> (False, d\<lparr>system := sys'\<rparr>, s1)
                | (True, sys') \<Rightarrow>
                    (let d1 = d\<lparr>system := sys'\<rparr> in
                     case device_id d1 of
                       Inl e \<Rightarrow> (False, d1, s1)
                     | Inr i1 \<Rightarrow>
                       (case request_get (''devices/1.'' @ fmt_id i1 @ ''/services/Zone'') s1 of
                          (Inl e, s2) \<Rightarrow> (False, d1, s2)
                        | (Inr zone_data, s2) \<Rightarrow>
                            if \<not> truthy zone_data then (False, d1, s2)
                            else
                              (case merge zone_data (zone d1) of
                                 (ok, zone') \<Rightarrow> (ok, d1\<lparr>zone := zone'\<rparr>, s2)))))))"

text \<open>\<^verbatim>\<open>Device.push\<close>, one group at a time. The ChangeSet is cleared whatever
  \<^verbatim>\<open>_request_put\<close> returned; only an exception leaves it and makes \<^verbatim>\<open>push\<close> return
  \<open>False\<close>.\<close>

definition push_system :: "device \<Rightarrow> api \<Rightarrow> (error + unit) \<times> device \<times> api" where
  "push_system d s =
     (if system_changed d \<noteq> [] then
        (case device_id d of
           Inl e \<Rightarrow> (Inl e, d, s)
         | Inr i \<Rightarrow>
           (case request_put (''devices/'' @ fmt_id i @ ''/services/System'')
                   (JObj (system_changed d)) s of
              (Inl e, s1) \<Rightarrow> (Inl e, d, s1)
            | (Inr resp1, s1) \<Rightarrow> (Inr (), d\<lparr>system_changed := []\<rparr>, s1)))
      else (Inr (), d, s))"

definition push_zone :: "device \<Rightarrow> api \<Rightarrow> (error + unit) \<times> device \<times> api" where
  "push_zone d s =
     (if zone_changed d \<noteq> [] then
        (case device_id d of
           Inl e \<Rightarrow> (Inl e, d, s)
         | Inr i \<Rightarrow>
           (case request_put (''devices/'' @ fmt_id i @ ''/services/Zone'')
                   (JObj (zone_changed d)) s of
              (Inl e, s1) \<Rightarrow> (Inl e, d, s1)
            | (Inr resp2, s1) \<Rightarrow> (Inr (), d\<lparr>zone_changed := []\<rparr>, s1)))
      else (Inr (), d, s))"

definition push :: "device \<Rightarrow> api \<Rightarrow> bool \<times> device \<times> api" where
  "push d s =
     (case push_system d s of
        (Inl e, d1, s1) \<Rightarrow> (False, d1, s1)
      | (Inr u, d1, s1) \<Rightarrow>
          (case push_zone d1 s1 of
             (Inl e, d2, s2) \<Rightarrow> (False, d2, s2)
           | (Inr u', d2, s2) \<Rightarrow> (True, d2, s2)))"

text \<open>\<^verbatim>\<open>Device._key_changed\<close>. The first argument is one of the two classes, or anything
  else.\<close>

datatype service = System | Zone | Other

definition key_changed :: "service \<Rightarrow> string \<Rightarrow> json \<Rightarrow> device \<Rightarrow> api \<Rightarrow> bool \<times> device \<times> api" where
  "key_changed service key v d s =
     (case service of
        Other \<Rightarrow> (False, d, s)
      | _ \<Rightarrow>
        (let d1 = (if service = System
                   then d\<lparr>system_changed := AList.update key v (system_changed d)\<rparr>
                   else d\<lparr>zone_changed := AList.update key v (zone_changed d)\<rparr>)
         in if AUTOSET d1 then push d1 s else (True, d1, s)))"

text \<open>The write accessors of the Zone group: the attribute is assigned, then the change is
  recorded under the key the setter names.\<close>

definition set_zone :: "string \<Rightarrow> string \<Rightarrow> json \<Rightarrow> device \<Rightarrow> api \<Rightarrow> device \<times> api" where
  "set_zone attr key v d s =
     (let d1 = d\<lparr>zone := AList.update attr v (zone d)\<rparr> in
      case key_changed Zone key v d1 s of (r, d2, s2) \<Rightarrow> (d2, s2))"

definition set_name :: "json \<Rightarrow> device \<Rightarrow> api \<Rightarrow> device \<times> api" where
  "set_name = set_zone ''name'' ''name''"

definition set_speed :: "json \<Rightarrow> device \<Rightarrow> api \<Rightarrow> device \<times> api" where
  "set_speed = set_zone ''speed'' ''speed''"

definition set_mode :: "json \<Rightarrow> device \<Rightarrow> api \<Rightarrow> device \<times> api" where
  "set_mode = set_zone ''mode'' ''mode''"

definition set_mode_deadline :: "json \<Rightarrow> device \<Rightarrow> api \<Rightarrow> device \<times> api" where
  "set_mode_deadline = set_zone ''mode_deadline'' ''mode-deadline''"

definition set_target_temp :: "json \<Rightarrow> device \<Rightarrow> api \<Rightarrow> device \<times> api" where
  "set_target_temp = set_zone ''target_temp'' ''target-temp''"

definition set_target_hmdty_level :: "json \<Rightarrow> device \<Rightarrow> api \<Rightarrow> device \<times> api" where
  "set_target_hmdty_level = set_zone ''target_hmdty_level'' ''target-hmdty-level''"

definition set_auto_mode_voc :: "json \<Rightarrow> device \<Rightarrow> api \<Rightarrow> device \<times> api" where
  "set_auto_mode_voc = set_zone ''auto_mode_voc'' ''auto-mode-voc''"

definition set_auto_mode_silent :: "json \<Rightarrow> device \<Rightarrow> api \<Rightarrow> device \<times> api" where
  "set_auto_mode_silent = set_zone ''auto_mode_silent'' ''auto-mode-silent''"

definition set_active_time_profile :: "json \<Rightarrow> device \<Rightarrow> api \<Rightarrow> device \<times> api" where
  "set_active_time_profile = set_zone ''time_profile'' ''time-profile''"

definition set_last_filter_change :: "json \<Rightarrow> device \<Rightarrow> api \<Rightarrow> device \<times> api" where
  "set_last_filter_change = set_zone ''last_filter_change'' ''last-filter-change''"

text \<open>\<^verbatim>\<open>Device.set_time_profile_name\<close>: the change is recorded under the attribute's own
  name.\<close>

definition set_time_profile_name :: "int \<Rightarrow> json \<Rightarrow> device \<Rightarrow> api \<Rightarrow> device \<times> api" where
  "set_time_profile_name number v d s =
     (if number < 1 \<or> number > 10 then (d, s)
      else
        (let a = time_profile_attr (nat number) ''name'';
             d1 = d\<lparr>system := AList.update a v (system d)\<rparr>
         in case key_changed System a v d1 s of (r, d2, s2) \<Rightarrow> (d2, s2)))"

text \<open>
  \<^verbatim>\<open>Device.set_time_profile_data\<close>. The length test reads \<^verbatim>\<open>len(list)\<close>: its argument is
  the built-in type, not the parameter \<^verbatim>\<open>value\<close>, and \<^verbatim>\<open>len\<close> of a type raises
  \<^verbatim>\<open>TypeError\<close>.
\<close>

definition len_of_type_list :: "error + nat" where
  "len_of_type_list = Inl TypeError"

definition set_time_profile_data ::
    "int \<Rightarrow> json list \<Rightarrow> device \<Rightarrow> api \<Rightarrow> (error + unit) \<times> device \<times> api" where
  "set_time_profile_data number v d s =
     (if number < 1 \<or> number > 10 then (Inr (), d, s)
      else
        (case len_of_type_list of
           Inl e \<Rightarrow> (Inl e, d, s)
         | Inr n \<Rightarrow>
             (let a = time_profile_attr (nat number) ''data'';
                  d1 = d\<lparr>system := AList.update a (Buffer v) (system d)\<rparr>
              in case key_changed System a (Buffer v) d1 s of
                   (r, d2, s2) \<Rightarrow> (Inr (), d2, s2))))"

text \<open>\<^verbatim>\<open>Device.__init__\<close>: the identifier is cut into pairs of characters, each read as a
  hexadecimal number; the object gets its fields; then the first \<^verbatim>\<open>fetch\<close>, whose result
  is not looked at.\<close>

definition Device_new :: "int list \<Rightarrow> device" where
  "Device_new bytes =
     \<lparr>AUTOSET = False,
      system = AList.update ''system_id'' (Buffer (map JInt bytes)) System_init,
      zone = Zone_init, system_changed = [], zone_changed = []\<rparr>"

definition Device_init :: "string \<Rightarrow> api \<Rightarrow> (error + device) \<times> api" where
  "Device_init ident s =
     (case collect (map int16 (slices2 ident)) of
        Inl e \<Rightarrow> (Inl e, s)
      | Inr bytes \<Rightarrow> (case fetch (Device_new bytes) s of (ok, d', s') \<Rightarrow> (Inr d', s')))"

section \<open>Device Registry\<close>

fun py_len :: "json \<Rightarrow> error + nat" where
  "py_len (JStr s) = Inr (length s)"
| "py_len (JList xs) = Inr (length xs)"
| "py_len (JObj kvs) = Inr (length kvs)"
| "py_len _ = Inl TypeError"

text \<open>The loop of \<^verbatim>\<open>API.get_devices\<close>. An identifier of length 12 that is not a string
  cannot be sliced into strings, and the constructor raises \<^verbatim>\<open>TypeError\<close>.\<close>

fun add_devices :: "json list \<Rightarrow> api \<Rightarrow> (error + unit) \<times> api" where
  "add_devices [] s = (Inr (), s)"
| "add_devices (entry # rest) s =
     (case py_get entry ''deviceIdentifier'' (JStr []) of
        Inl e \<Rightarrow> (Inl e, s)
      | Inr mac \<Rightarrow>
          (case py_len mac of
             Inl e \<Rightarrow> (Inl e, s)
           | Inr n \<Rightarrow>
               if n \<noteq> 12 then add_devices rest s
               else
                 (case mac of
                    JStr m \<Rightarrow>
                      (case Device_init m s of
                         (Inl e, s1) \<Rightarrow> (Inl e, s1)
                       | (Inr d, s1) \<Rightarrow> add_devices rest (s1\<lparr>devices := devices s1 @ [d]\<rparr>))
                  | _ \<Rightarrow> (Inl TypeError, s))))"

text \<open>\<^verbatim>\<open>API.get_devices\<close>: the registry as it is after the loop.\<close>

definition get_devices :: "api \<Rightarrow> (error + device list) \<times> api" where
  "get_devices s =
     (case request_get ''devices/'' s of
        (Inl e, s1) \<Rightarrow> (Inl e, s1)
      | (Inr response, s1) \<Rightarrow>
          if \<not> truthy response then (Inr [], s1)
          else
            (case py_iter response of
               Inl e \<Rightarrow> (Inl e, s1)
             | Inr entries \<Rightarrow>
                 (case add_devices entries s1 of
                    (Inl e, s2) \<Rightarrow> (Inl e, s2)
                  | (Inr u, s2) \<Rightarrow> (Inr (devices s2), s2))))"

text \<open>\<^verbatim>\<open>API.get_device\<close>: the first device of the list whose \<^verbatim>\<open>device_id\<close> equals the
  normalised identifier.\<close>

fun find_device :: "string \<Rightarrow> device list \<Rightarrow> error + device option" where
  "find_device ident [] = Inr None"
| "find_device ident (d # ds) =
     (case device_id d of
        Inl e \<Rightarrow> Inl e
      | Inr v \<Rightarrow> if v = JStr ident then Inr (Some d) else find_device ident ds)"

definition get_device :: "string \<Rightarrow> api \<Rightarrow> (error + device option) \<times> api" where
  "get_device deviceID s =
     (let ident = py_upper (strip_colons deviceID) in
      case get_devices s of
        (Inl e, s1) \<Rightarrow> (Inl e, s1)
      | (Inr ds, s1) \<Rightarrow>
          (case find_device ident ds of Inl e \<Rightarrow> (Inl e, s1) | Inr r \<Rightarrow> (Inr r, s1)))"

section \<open>Observing a run\<close>

text \<open>\<^verbatim>\<open>API.__init__\<close>, with the credentials file and the scripted responses of the
  environment it starts in.\<close>

definition API_init :: "(string \<times> string) list option \<Rightarrow> http_result list \<Rightarrow> api" where
  "API_init file script =
     \<lparr>AUTO_RECONNECT = True, session_token = JNull, api_token = JNull, auth_url = None,
      api_url = None, devices = [], cred_file = file, pending = script, trace = []\<rparr>"

text \<open>The events a call added to the trace, given the states before and after it.\<close>

definition issued :: "api \<Rightarrow> api \<Rightarrow> event list" where
  "issued s s' = drop (length (trace s)) (trace s')"

fun is_get :: "event \<Rightarrow> bool" where
  "is_get ReadCredentials = False"
| "is_get (Http rq res) = (meth rq = GET)"

text \<open>An exchange yielded a token when it returned a value that \<^verbatim>\<open>connect\<close> takes as
  true.\<close>

definition yields_token :: "error + json \<Rightarrow> bool" where
  "yields_token r = (case r of Inl e \<Rightarrow> False | Inr tok \<Rightarrow> truthy tok)"

text \<open>A complete credentials file and the two successful answers of the handshake, for
  the concrete runs below.\<close>

definition good_file :: "(string \<times> string) list" where
  "good_file = [(''auth_url'', ''https://auth/''), (''api_url'', ''https://api/''),
     (''username'', ''u''), (''password'', ''p'')]"

definition session_ok :: "string \<Rightarrow> http_result" where
  "session_ok tok =
     Response 200 (Some (JObj [(''status'', JStr ''SUCCESS''), (''sessionToken'', JStr tok)]))"

definition token_ok :: "string \<Rightarrow> http_result" where
  "token_ok tok = Response 200 (Some (JObj [(''token'', JStr tok)]))"

text \<open>A client that has both tokens and its URLs, as after a successful \<^verbatim>\<open>connect\<close>, and a
  200 response with a body.\<close>

definition connected :: "http_result list \<Rightarrow> api" where
  "connected script = (API_init (Some good_file) script)
     \<lparr>session_token := JStr ''S0'', api_token := JStr ''T0'',
      auth_url := Some ''https://auth/'', api_url := Some ''https://api/''\<rparr>"

definition ok :: "json \<Rightarrow> http_result" where
  "ok j = Response 200 (Some j)"

lemmas auth_eval =
  connect_def get_session_token_def get_api_token_def load_credentials_def http_def
  API_init_def good_file_def required_keys_def auth_request_def token_request_def fmt_opt_def
  Let_def session_ok_def token_ok_def issued_def yields_token_def

section \<open>The handshake\<close>

lemma http_state:
  "http rq s = (r, s1) \<Longrightarrow>
     s1 = s\<lparr>pending := tl (pending s), trace := trace s @ [Http rq r]\<rparr>"
  by (auto simp: http_def split: list.splits)

lemma load_credentials_trace:
  "load_credentials s = (c, s1) \<Longrightarrow> trace s1 = trace s @ [ReadCredentials]"
  by (auto simp: load_credentials_def Let_def split: option.splits if_splits)

lemma issued_trans:
  "trace s1 = trace s @ e1 \<Longrightarrow> trace s2 = trace s1 @ e2 \<Longrightarrow> issued s s2 = e1 @ e2"
  by (simp add: issued_def)

lemma get_session_token_events:
  "get_session_token s = (r, s1) \<Longrightarrow>
     trace s1 = trace s @ [ReadCredentials] \<or>
     (\<exists>rq res. meth rq = POST \<and> trace s1 = trace s @ [ReadCredentials, Http rq res])"
  by (auto simp: get_session_token_def auth_request_def
      split: prod.splits option.splits http_result.splits if_splits sum.splits
      dest!: load_credentials_trace http_state)

lemma connect_no_session:
  assumes "get_session_token s = (r1, s1)" "\<not> yields_token r1"
  shows "connect s = ((case r1 of Inl e \<Rightarrow> Inl e | Inr tok \<Rightarrow> Inr False), s1)"
  using assms by (auto simp: connect_def yields_token_def split: sum.splits)

lemma get_session_token_Inr:
  assumes "get_session_token s = (Inr tok, s1)" "truthy tok"
  shows "session_token s1 = tok \<and>
     (\<exists>u p body.
        trace s1 = trace s @
          [ReadCredentials, Http (auth_request (auth_url s1) u p) (Response 200 (Some body))]
        \<and> py_get body ''status'' JNull = Inr (JStr ''SUCCESS'')
        \<and> py_getitem body ''sessionToken'' = Inr tok)"
  using assms
  apply (auto simp: get_session_token_def
      split: prod.splits option.splits http_result.splits if_splits sum.splits
      dest!: load_credentials_trace http_state)
  apply blast
  done

lemma get_api_token_Inr:
  assumes "get_api_token s = (Inr tok, s1)" "truthy tok"
  shows "tok = session_token s \<and> truthy (api_token s1) \<and> session_token s1 = session_token s \<and>
     auth_url s1 = auth_url s \<and> api_url s1 = api_url s \<and>
     (\<exists>u body. api_url s = Some u
        \<and> trace s1 = trace s @
            [Http (token_request u (session_token s)) (Response 200 (Some body))]
        \<and> py_get body ''token'' JNull = Inr (api_token s1))"
  using assms
  by (auto simp: get_api_token_def
      split: prod.splits option.splits http_result.splits if_splits sum.splits
      dest!: http_state)

lemma connect_True:
  assumes "connect s = (Inr True, s')"
  shows "\<exists>tok s1. get_session_token s = (Inr tok, s1) \<and> truthy tok \<and>
           get_api_token s1 = (Inr tok, s') \<and> session_token s' = tok \<and> truthy (api_token s')"
proof -
  obtain r1 s1 where g1: "get_session_token s = (r1, s1)" by (cases "get_session_token s")
  with assms obtain tok where r1: "r1 = Inr tok" and t: "truthy tok"
    by (auto simp: connect_def split: sum.splits if_splits prod.splits)
  obtain r2 s2 where g2: "get_api_token s1 = (r2, s2)" by (cases "get_api_token s1")
  with assms g1 r1 t obtain tok' where r2: "r2 = Inr tok'" and t': "truthy tok'" and s2: "s2 = s'"
    by (auto simp: connect_def split: sum.splits if_splits prod.splits)
  from get_session_token_Inr[OF g1[unfolded r1] t] have st: "session_token s1 = tok" by simp
  from get_api_token_Inr[OF g2[unfolded r2] t'] st
  have "tok' = tok" "truthy (api_token s2)" "session_token s2 = tok" by auto
  with g1 r1 t g2 r2 s2 show ?thesis by auto
qed

text \<open>
  C4. In every run of \<^verbatim>\<open>connect\<close>: when the session-token exchange yields no token,
  \<^verbatim>\<open>connect\<close> stops in the state that exchange left, it has issued no GET at all (so none to
  the token endpoint) and it does not report success; and when \<^verbatim>\<open>connect\<close> reports success,
  it has read the credentials, posted them and received a session token that counts as
  true, then sent that token to the token endpoint and received an API token that counts as
  true, and these three events are all it did.
\<close>

theorem connect_handshake_order:
  assumes "connect s = (r, s')"
  shows "(\<not> yields_token (fst (get_session_token s)) \<longrightarrow>
            s' = snd (get_session_token s) \<and> \<not> list_ex is_get (issued s s') \<and> r \<noteq> Inr True)
       \<and> (r = Inr True \<longrightarrow>
            (\<exists>tok s1 u p b1 b2. get_session_token s = (Inr tok, s1) \<and> truthy tok
               \<and> get_api_token s1 = (Inr tok, s')
               \<and> issued s s' =
                   [ReadCredentials,
                    Http (auth_request (auth_url s') u p) (Response 200 (Some b1)),
                    Http (token_request (the (api_url s')) tok) (Response 200 (Some b2))]
               \<and> py_getitem b1 ''sessionToken'' = Inr tok \<and> session_token s' = tok
               \<and> py_get b2 ''token'' JNull = Inr (api_token s') \<and> truthy (api_token s')))"
proof (intro conjI impI)
  obtain r1 s1 where g1: "get_session_token s = (r1, s1)" by (cases "get_session_token s")
  assume "\<not> yields_token (fst (get_session_token s))"
  with g1 have ny: "\<not> yields_token r1" by simp
  from connect_no_session[OF g1 ny] assms
  have r: "r = (case r1 of Inl e \<Rightarrow> Inl e | Inr tok \<Rightarrow> Inr False)" and s': "s' = s1" by auto
  from s' g1 show "s' = snd (get_session_token s)" by simp
  from get_session_token_events[OF g1] s' show "\<not> list_ex is_get (issued s s')"
    by (auto simp: issued_def)
  from r show "r \<noteq> Inr True" by (auto split: sum.splits)
next
  assume "r = Inr True"
  with assms have c: "connect s = (Inr True, s')" by simp
  from connect_True[OF c] obtain tok s1 where
    g1: "get_session_token s = (Inr tok, s1)" and t: "truthy tok" and
    g2: "get_api_token s1 = (Inr tok, s')" and st: "session_token s' = tok" and
    at: "truthy (api_token s')" by blast
  from get_session_token_Inr[OF g1 t] obtain u p b1 where
    i1: "trace s1 = trace s @
           [ReadCredentials, Http (auth_request (auth_url s1) u p) (Response 200 (Some b1))]"
    and b1: "py_getitem b1 ''sessionToken'' = Inr tok" and st1: "session_token s1 = tok"
    by blast
  from get_api_token_Inr[OF g2 t] obtain a b2 where
    a: "api_url s1 = Some a" and
    i2: "trace s' = trace s1 @
           [Http (token_request a (session_token s1)) (Response 200 (Some b2))]"
    and b2: "py_get b2 ''token'' JNull = Inr (api_token s')"
    and urls: "auth_url s' = auth_url s1" "api_url s' = api_url s1" by blast
  from issued_trans[OF i1 i2] st1 urls a
  have "issued s s' =
      [ReadCredentials, Http (auth_request (auth_url s') u p) (Response 200 (Some b1)),
       Http (token_request (the (api_url s')) tok) (Response 200 (Some b2))]" by simp
  with g1 t g2 b1 st b2 at
  show "\<exists>tok s1 u p b1 b2. get_session_token s = (Inr tok, s1) \<and> truthy tok
               \<and> get_api_token s1 = (Inr tok, s')
               \<and> issued s s' =
                   [ReadCredentials,
                    Http (auth_request (auth_url s') u p) (Response 200 (Some b1)),
                    Http (token_request (the (api_url s')) tok) (Response 200 (Some b2))]
               \<and> py_getitem b1 ''sessionToken'' = Inr tok \<and> session_token s' = tok
               \<and> py_get b2 ''token'' JNull = Inr (api_token s') \<and> truthy (api_token s')"
    by blast
qed

text \<open>Two runs: the auth endpoint answers 403 and no GET follows; both endpoints answer
  with a token and \<^verbatim>\<open>connect\<close> succeeds holding both.\<close>

theorem connect_handshake_order_witness:
  "fst (connect (API_init (Some good_file) [Response 403 None])) = Inr False
   \<and> \<not> list_ex is_get (issued (API_init (Some good_file) [Response 403 None])
          (snd (connect (API_init (Some good_file) [Response 403 None]))))
   \<and> fst (connect (API_init (Some good_file) [session_ok ''S1'', token_ok ''T1''])) = Inr True
   \<and> session_token (snd (connect (API_init (Some good_file) [session_ok ''S1'', token_ok ''T1''])))
       = JStr ''S1''
   \<and> api_token (snd (connect (API_init (Some good_file) [session_ok ''S1'', token_ok ''T1''])))
       = JStr ''T1''"
  using connect_handshake_order [of "API_init (Some good_file) [Response 403 None]"
      "fst (connect (API_init (Some good_file) [Response 403 None]))"
      "snd (connect (API_init (Some good_file) [Response 403 None]))"]
    connect_handshake_order [of "API_init (Some good_file) [session_ok ''S1'', token_ok ''T1'']"
      "fst (connect (API_init (Some good_file) [session_ok ''S1'', token_ok ''T1'']))"
      "snd (connect (API_init (Some good_file) [session_ok ''S1'', token_ok ''T1'']))"]
  by (simp add: auth_eval)

section \<open>Flushing the ChangeSets\<close>

text \<open>A mirror as \<^verbatim>\<open>Device.__init__\<close> builds it for the identifier
  \<^verbatim>\<open>001A2B3C4D5E\<close>, before its first \<^verbatim>\<open>fetch\<close>.\<close>

definition mirror :: device where
  "mirror = Device_new [0, 26, 43, 60, 77, 94]"

lemma push_system_Inr:
  "push_system d s = (Inr u, d1, s1) \<Longrightarrow>
     system_changed d1 = [] \<and> zone_changed d1 = zone_changed d"
  by (auto simp: push_system_def split: if_splits sum.splits prod.splits)

lemma push_zone_Inr:
  "push_zone d s = (Inr u, d1, s1) \<Longrightarrow>
     zone_changed d1 = [] \<and> system_changed d1 = system_changed d"
  by (auto simp: push_zone_def split: if_splits sum.splits prod.splits)

text \<open>
  C6. Whenever \<^verbatim>\<open>push\<close> returns \<open>True\<close>, both ChangeSets of the device it leaves are
  empty; and \<^verbatim>\<open>push\<close> on a device whose two ChangeSets are empty returns \<open>True\<close> and leaves
  the device and the client, its trace included, as they were: no request is issued.
\<close>

theorem push_flush_clears:
  "(push d s = (True, d', s') \<longrightarrow> system_changed d' = [] \<and> zone_changed d' = [])
   \<and> (system_changed d = [] \<and> zone_changed d = [] \<longrightarrow> push d s = (True, d, s))"
proof (rule conjI; rule impI)
  assume p: "push d s = (True, d', s')"
  then obtain d1 s1 where 1: "push_system d s = (Inr (), d1, s1)"
    and 2: "push_zone d1 s1 = (Inr (), d', s')"
    by (auto simp: push_def split: sum.splits prod.splits)
  from push_system_Inr[OF 1] push_zone_Inr[OF 2]
  show "system_changed d' = [] \<and> zone_changed d' = []" by simp
next
  assume "system_changed d = [] \<and> zone_changed d = []"
  then show "push d s = (True, d, s)"
    by (simp add: push_def push_system_def push_zone_def)
qed

text \<open>The scenario of the specification: the mode was set to \<^verbatim>\<open>auto\<close>, the backend
  accepts the PUT with 200, the Zone ChangeSet is empty afterwards and the backend has
  received \<^verbatim>\<open>{"mode": "auto"}\<close>; and a push with nothing pending does nothing.\<close>

theorem push_flush_clears_witness:
  "fst (push (mirror\<lparr>zone_changed := [(''mode'', JStr ''auto'')]\<rparr>) (connected [ok (JObj [])]))
     = True
   \<and> zone_changed (fst (snd (push (mirror\<lparr>zone_changed := [(''mode'', JStr ''auto'')]\<rparr>)
         (connected [ok (JObj [])])))) = []
   \<and> trace (snd (snd (push (mirror\<lparr>zone_changed := [(''mode'', JStr ''auto'')]\<rparr>)
         (connected [ok (JObj [])])))) =
       [Http (put_request (Some ''https://api/'') ''devices/001A2B3C4D5E/services/Zone''
                (JStr ''T0'') (JObj [(''mode'', JStr ''auto'')]))
             (ok (JObj []))]
   \<and> push mirror (connected []) = (True, mirror, connected [])"
proof -
  let ?d = "mirror\<lparr>zone_changed := [(''mode'', JStr ''auto'')]\<rparr>"
  let ?s = "connected [ok (JObj [])]"
  have e: "fst (push ?d ?s) = True" by code_simp
  have t: "trace (snd (snd (push ?d ?s))) =
       [Http (put_request (Some ''https://api/'') ''devices/001A2B3C4D5E/services/Zone''
                (JStr ''T0'') (JObj [(''mode'', JStr ''auto'')]))
             (ok (JObj []))]" by code_simp
  have m: "system_changed mirror = [] \<and> zone_changed mirror = []"
    by (simp add: mirror_def Device_new_def)
  from e have "push ?d ?s = (True, fst (snd (push ?d ?s)), snd (snd (push ?d ?s)))"
    by (simp add: prod_eq_iff)
  with push_flush_clears [of ?d ?s "fst (snd (push ?d ?s))" "snd (snd (push ?d ?s))"]
  have "zone_changed (fst (snd (push ?d ?s))) = []" by blast
  moreover from push_flush_clears [of mirror "connected []" mirror "connected []"] m
  have "push mirror (connected []) = (True, mirror, connected [])" by blast
  ultimately show ?thesis using e t by blast
qed

text \<open>
  C2, at an input where it fails. The System ChangeSet holds one change and the backend
  answers the PUT with 500. \<^verbatim>\<open>push\<close> returns \<open>True\<close> and the device it leaves is the
  mirror with an empty System ChangeSet: the recorded change is gone although the flush
  failed.
\<close>

theorem push_discards_changes_on_failed_put:
  "push (mirror\<lparr>system_changed := [(''time_profile_1_name'', JStr ''Day'')]\<rparr>)
        (connected [Response 500 None])
   = (True, mirror,
      (connected [])\<lparr>trace :=
         [Http (put_request (Some ''https://api/'') ''devices/001A2B3C4D5E/services/System''
                  (JStr ''T0'') (JObj [(''time_profile_1_name'', JStr ''Day'')]))
               (Response 500 None)]\<rparr>)"
  by code_simp

section \<open>Time-profile data\<close>

text \<open>
  C8, at the inputs where it fails. For each index from 1 to 10 and any list of bytes,
  \<^verbatim>\<open>set_time_profile_data\<close> raises \<^verbatim>\<open>TypeError\<close> and leaves the device and the client as
  they were: nothing is stored and no change is recorded.
\<close>

theorem set_time_profile_data_raises:
  "list_all (\<lambda>number. set_time_profile_data number v d s = (Inl TypeError, d, s))
     [1, 2, 3, 4, 5, 6, 7, 8, 9, 10]"
  by (simp add: set_time_profile_data_def len_of_type_list_def)

section \<open>Missing credentials\<close>

text \<open>
  C3, at an input where it fails. The credentials file lacks \<^verbatim>\<open>password\<close>.
  \<^verbatim>\<open>connect\<close> reads the file, issues no request, and ends with the \<^verbatim>\<open>KeyError\<close> that
  \<^verbatim>\<open>credentials['username']\<close> raises on the empty dict \<^verbatim>\<open>_load_credentials\<close> returned.
\<close>

theorem missing_credential_raises_KeyError:
  "connect (API_init (Some [(''auth_url'', ''https://auth/''), (''api_url'', ''https://api/''),
       (''username'', ''u'')]) [session_ok ''S1'', token_ok ''T1''])
   = (Inl KeyError,
      (API_init (Some [(''auth_url'', ''https://auth/''), (''api_url'', ''https://api/''),
       (''username'', ''u'')]) [session_ok ''S1'', token_ok ''T1''])\<lparr>trace := [ReadCredentials]\<rparr>)"
  by (simp add: auth_eval)

end
